theory Spec2Isabelle
  imports Main "HOL-Library.Word"
begin

unbundle bit_operations_syntax

section \<open>Data model (h/const.h, h/types.h)\<close>

text \<open>
  Pointers into the two static tables (\<open>procTable\<close> of pcb.c, \<open>semdTable\<close> of asl.c) are
  \<open>nat option\<close>: \<open>None\<close> is NULL and \<open>Some i\<close> is the address of entry \<open>i\<close>.
  Pointers that the code also treats as numbers (semaphore addresses \<open>int *\<close>, which the
  ASL orders with \<open><\<close>, and \<open>state_t *\<close> values that arrive in registers) are
  \<open>nat\<close> addresses with \<open>0\<close> for NULL.
  Dereferencing NULL and indexing an array outside its bounds are undefined in C; the
  model makes both a value of type \<open>fault\<close>.
\<close>

datatype fault = NullDeref | OutOfBounds

type_synonym word32 = "32 word"

definition MAXPROC :: nat where "MAXPROC = 20"
definition MAXSEMA4 :: int where "MAXSEMA4 = 49"
definition PCPREFETCH :: word32 where "PCPREFETCH = 4"
definition RI :: word32 where "RI = 20"
definition QUANTUM :: word32 where "QUANTUM = 5000"
definition INTERVAL :: word32 where "INTERVAL = 100000"
definition CLOCKINDEX :: int where "CLOCKINDEX = 48"
definition LASTSEMINDEX :: int where "LASTSEMINDEX = 48"
definition ALLOFF :: word32 where "ALLOFF = 0x00000000"
definition INTSDISABLED :: word32 where "INTSDISABLED = 0x000000C0"
definition INTSENABLED :: word32 where "INTSENABLED = 0xFFFFFF3F"
definition SYSMODE :: word32 where "SYSMODE = 0x0000001F"
definition USERMODE :: word32 where "USERMODE = 0x00000010"
definition INTOLDADD :: nat where "INTOLDADD = 0x00007000"
definition PGMTOLDADD :: nat where "PGMTOLDADD = 0x00007160"
definition TLBOLDADD :: nat where "TLBOLDADD = 0x000070B0"
definition SYSOLDADD :: nat where "SYSOLDADD = 0x00007210"
definition TLBTRAP :: int where "TLBTRAP = 0"
definition PGMTRAP :: int where "PGMTRAP = 1"
definition SYSTRAP :: int where "SYSTRAP = 2"
definition SUCCESS :: word32 where "SUCCESS = 0"
definition FAILURE :: word32 where "FAILURE = - 1"
definition DEVICEREADY :: word32 where "DEVICEREADY = 1"
definition ACK :: word32 where "ACK = 1"
definition ISOLATEREADY :: word32 where "ISOLATEREADY = 0x0000000F"
definition DEVICEOFFSET :: int where "DEVICEOFFSET = 3"
definition TOTALDEVICES :: int where "TOTALDEVICES = 8"
definition LINENUMOFFSET :: nat where "LINENUMOFFSET = 24"
definition TERMINALINTMAP :: nat where "TERMINALINTMAP = 0x00006FF0"
definition PRINTERINTMAP :: nat where "PRINTERINTMAP = 0x00006FEC"
definition NETWORKINTMAP :: nat where "NETWORKINTMAP = 0x00006FE8"
definition TAPEINTMAP :: nat where "TAPEINTMAP = 0x00006FE4"
definition DISKINTMAP :: nat where "DISKINTMAP = 0x00006FE0"
definition CREATEPROCESS :: int where "CREATEPROCESS = 1"
definition TERMINATEPROCESS :: int where "TERMINATEPROCESS = 2"
definition VERHOGEN :: int where "VERHOGEN = 3"
definition PASSEREN :: int where "PASSEREN = 4"
definition SPECTRAPVEC :: int where "SPECTRAPVEC = 5"
definition GETCPUTIME :: int where "GETCPUTIME = 6"
definition WAITCLOCK :: int where "WAITCLOCK = 7"
definition WAITIO :: int where "WAITIO = 8"
definition LINENUMTWO :: int where "LINENUMTWO = 2"
definition LINENUMTHREE :: int where "LINENUMTHREE = 3"
definition LINENUMFOUR :: int where "LINENUMFOUR = 4"
definition LINENUMFIVE :: int where "LINENUMFIVE = 5"
definition LINENUMSIX :: int where "LINENUMSIX = 6"
definition LINENUMSEVEN :: int where "LINENUMSEVEN = 7"
definition RECEIVING :: bool where "RECEIVING = True"
definition TRANSMITTING :: bool where "TRANSMITTING = False"

text \<open>The terminal view of a device register; the \<open>dtpreg_t\<close> view of the same union is
  \<open>status = recv_status\<close>, \<open>command = recv_command\<close>, \<open>data0 = transm_status\<close>,
  \<open>data1 = transm_command\<close>.\<close>

record devreg_t =
  recv_status :: word32
  recv_command :: word32
  transm_status :: word32
  transm_command :: word32

record state_t =
  a1 :: word32
  a2 :: word32
  a3 :: word32
  a4 :: word32
  v1 :: word32
  v2 :: word32
  v3 :: word32
  v4 :: word32
  v5 :: word32
  v6 :: word32
  sl :: word32
  fp :: word32
  ip :: word32
  sp :: word32
  lr :: word32
  pc :: word32
  cpsr :: word32
  CP15_Control :: word32
  CP15_EntryHi :: word32
  CP15_Cause :: word32
  TOD_Hi :: word32
  TOD_Low :: word32

record p_states =
  oldState :: nat
  newState :: nat

type_synonym pcb_PTR = "nat option"
type_synonym semd_PTR = "nat option"

record pcb_t =
  p_next :: pcb_PTR
  p_prev :: pcb_PTR
  p_prnt :: pcb_PTR
  p_child :: pcb_PTR
  p_nextSib :: pcb_PTR
  p_prevSib :: pcb_PTR
  p_s :: state_t
  p_time :: word32
  p_semAdd :: nat
  stateArray :: "nat \<Rightarrow> p_states"

record semd_t =
  s_next :: semd_PTR
  s_semAdd :: nat
  s_procQ :: pcb_PTR

type_synonym ptable = "nat \<Rightarrow> pcb_t"

text \<open>
  The nucleus state: the globals of pcb.c, asl.c and initial.c, and the part of the
  machine the handlers read and write.
  \<^item> \<open>sems\<close> is the memory of \<open>int\<close> semaphores by address; \<open>g_lotOfSemaphores[i]\<close> lives
    at \<open>lotBase + 4 * i\<close> (the array's address is fixed by the linker, so it is a
    parameter of the state).
  \<^item> \<open>stmem\<close> is the memory of \<open>state_t\<close> objects by address (the old areas and the
    areas whose addresses processes pass in registers); the \<open>p_s\<close> fields of the PCBs
    are not part of it, so no such address designates a process's saved state.
  \<^item> \<open>devregs i\<close> is the device register at \<open>DEVBASEADDRESS + i * DEVWORDLENGTH\<close>,
    \<open>bitmaps\<close> the pending-interrupt bitmaps by address.
  \<^item> \<open>tod\<close> and \<open>todIdx\<close> give the successive values read by \<open>getTODLO\<close>;
    \<open>timer\<close> and \<open>cpu_status\<close> hold the last values written by \<open>setTIMER\<close> and
    \<open>setSTATUS\<close>.
\<close>

record kstate =
  procTable :: ptable
  pcbList_h :: pcb_PTR
  semdTable :: "nat \<Rightarrow> semd_t"
  semd_h :: semd_PTR
  semdFree_h :: semd_PTR
  g_procCount :: int
  g_softBlockCount :: int
  g_startTOD :: word32
  g_endTOD :: word32
  g_accTime :: word32
  g_endOfInterval :: word32
  g_currentProc :: pcb_PTR
  g_readyQueue :: pcb_PTR
  sems :: "nat \<Rightarrow> int"
  lotBase :: nat
  g_deviceStatus :: "nat \<Rightarrow> word32"
  stmem :: "nat \<Rightarrow> state_t"
  devregs :: "int \<Rightarrow> devreg_t"
  bitmaps :: "nat \<Rightarrow> word32"
  tod :: "nat \<Rightarrow> word32"
  todIdx :: nat
  timer :: word32
  cpu_status :: word32

section \<open>Process queues and trees (phase1/pcb.c)\<close>

definition emptyProcQ :: "pcb_PTR \<Rightarrow> bool" where
  "emptyProcQ tp = (tp = None)"

definition mkEmptyProcQ :: pcb_PTR where
  "mkEmptyProcQ = None"

definition headProcQ :: "pcb_PTR \<Rightarrow> ptable \<Rightarrow> pcb_PTR" where
  "headProcQ tp pt = (case tp of None \<Rightarrow> None | Some t \<Rightarrow> p_next (pt t))"

text \<open>\<open>insertProcQ\<close>, \<open>removeProcQ\<close> and \<open>outProcQ\<close> take the tail pointer by reference;
  the model takes its value and returns the new one, and the caller stores it back.\<close>

definition insertProcQ :: "pcb_PTR \<Rightarrow> pcb_PTR \<Rightarrow> ptable \<Rightarrow> fault + (pcb_PTR \<times> ptable)" where
  "insertProcQ tp p pt =
     (case p of
        None \<Rightarrow> Inl NullDeref
      | Some pi \<Rightarrow>
          (case tp of
             None \<Rightarrow> Inr (p, pt(pi := (pt pi)\<lparr>p_next := p, p_prev := p\<rparr>))
           | Some t \<Rightarrow>
               (let pt1 = pt(pi := (pt pi)\<lparr>p_next := p_next (pt t)\<rparr>) in
                case p_next (pt1 t) of
                  None \<Rightarrow> Inl NullDeref
                | Some n \<Rightarrow>
                    (let pt2 = pt1(n := (pt1 n)\<lparr>p_prev := p\<rparr>);
                         pt3 = pt2(t := (pt2 t)\<lparr>p_next := p\<rparr>);
                         pt4 = pt3(pi := (pt3 pi)\<lparr>p_prev := tp\<rparr>)
                     in Inr (p, pt4)))))"

text \<open>The result is (removed element, new tail pointer, table).\<close>

definition removeProcQ :: "pcb_PTR \<Rightarrow> ptable \<Rightarrow> fault + (pcb_PTR \<times> pcb_PTR \<times> ptable)" where
  "removeProcQ tp pt =
     (case tp of
        None \<Rightarrow> Inr (None, None, pt)
      | Some t \<Rightarrow>
          if p_next (pt t) = Some t then Inr (Some t, None, pt)
          else
            (case p_next (pt t) of
               None \<Rightarrow> Inl NullDeref
             | Some r \<Rightarrow>
                 (let pt1 = pt(t := (pt t)\<lparr>p_next := p_next (pt r)\<rparr>) in
                  case p_next (pt1 t) of
                    None \<Rightarrow> Inl NullDeref
                  | Some n \<Rightarrow>
                      (let pt2 = pt1(n := (pt1 n)\<lparr>p_prev := Some t\<rparr>);
                           pt3 = pt2(r := (pt2 r)\<lparr>p_next := None\<rparr>);
                           pt4 = pt3(r := (pt3 r)\<lparr>p_prev := None\<rparr>)
                       in Inr (Some r, tp, pt4)))))"

text \<open>The search loop of \<open>outProcQ\<close> (case 3): \<open>pcbAfterTP\<close> walks from the head until it
  meets the tail pointer. On a queue that does not lead back to its tail the loop of the
  source does not end; then the value is \<open>None\<close>.\<close>

partial_function (option) outProcQ_loop ::
    "nat \<Rightarrow> pcb_PTR \<Rightarrow> pcb_PTR \<Rightarrow> ptable \<Rightarrow> (fault + (pcb_PTR \<times> ptable)) option" where
  "outProcQ_loop t p pcbAfterTP pt =
     (if pcbAfterTP \<noteq> Some t then
        (case pcbAfterTP of
           None \<Rightarrow> Some (Inl NullDeref)
         | Some a \<Rightarrow>
             if pcbAfterTP = p then
               (case p_next (pt a) of
                  None \<Rightarrow> Some (Inl NullDeref)
                | Some n \<Rightarrow>
                    (let pt1 = pt(n := (pt n)\<lparr>p_prev := p_prev (pt a)\<rparr>) in
                     case p_prev (pt1 a) of
                       None \<Rightarrow> Some (Inl NullDeref)
                     | Some b \<Rightarrow>
                         (let pt2 = pt1(b := (pt1 b)\<lparr>p_next := p_next (pt1 a)\<rparr>);
                              pt3 = pt2(a := (pt2 a)\<lparr>p_next := None\<rparr>);
                              pt4 = pt3(a := (pt3 a)\<lparr>p_prev := None\<rparr>)
                          in Some (Inr (pcbAfterTP, pt4)))))
             else outProcQ_loop t p (p_next (pt a)) pt)
      else Some (Inr (None, pt)))"

text \<open>The result is (returned pointer, new tail pointer, table).\<close>

definition outProcQ ::
    "pcb_PTR \<Rightarrow> pcb_PTR \<Rightarrow> ptable \<Rightarrow> (fault + (pcb_PTR \<times> pcb_PTR \<times> ptable)) option" where
  "outProcQ tp p pt =
     (case tp of
        None \<Rightarrow> Some (Inr (None, tp, pt))
      | Some t \<Rightarrow>
          if p = tp then
            (if p_next (pt t) \<noteq> Some t then
               (case p_next (pt t) of
                  None \<Rightarrow> Some (Inl NullDeref)
                | Some n \<Rightarrow>
                    (let pt1 = pt(n := (pt n)\<lparr>p_prev := p_prev (pt t)\<rparr>) in
                     case p_prev (pt1 t) of
                       None \<Rightarrow> Some (Inl NullDeref)
                     | Some b \<Rightarrow>
                         (let pt2 = pt1(b := (pt1 b)\<lparr>p_next := p_next (pt1 t)\<rparr>)
                          in Some (Inr (p, p_prev (pt2 t), pt2)))))
             else Some (Inr (p, None, pt)))
          else
            (case outProcQ_loop t p (p_next (pt t)) pt of
               None \<Rightarrow> None
             | Some (Inl e) \<Rightarrow> Some (Inl e)
             | Some (Inr (r, pt')) \<Rightarrow> Some (Inr (r, tp, pt'))))"

definition emptyChild :: "pcb_PTR \<Rightarrow> ptable \<Rightarrow> fault + bool" where
  "emptyChild p pt = (case p of None \<Rightarrow> Inl NullDeref | Some pi \<Rightarrow> Inr (p_child (pt pi) = None))"

definition insertChild :: "pcb_PTR \<Rightarrow> pcb_PTR \<Rightarrow> ptable \<Rightarrow> fault + ptable" where
  "insertChild prnt p pt =
     (case emptyChild prnt pt of
        Inl e \<Rightarrow> Inl e
      | Inr noChild \<Rightarrow>
          (case (prnt, p) of
             (Some pr, Some pi) \<Rightarrow>
               (let pt1 =
                      (if noChild then pt(pi := (pt pi)\<lparr>p_prevSib := None\<rparr>)
                       else
                         (case p_child (pt pr) of
                            None \<Rightarrow> pt
                          | Some c \<Rightarrow>
                              (let pta = pt(c := (pt c)\<lparr>p_nextSib := p\<rparr>)
                               in pta(pi := (pta pi)\<lparr>p_prevSib := p_child (pta pr)\<rparr>))));
                    pt2 = pt1(pi := (pt1 pi)\<lparr>p_nextSib := None\<rparr>);
                    pt3 = pt2(pr := (pt2 pr)\<lparr>p_child := p\<rparr>);
                    pt4 = pt3(pi := (pt3 pi)\<lparr>p_prnt := prnt\<rparr>)
                in Inr pt4)
           | _ \<Rightarrow> Inl NullDeref))"

text \<open>The result is (removed child, table).\<close>

definition removeChild :: "pcb_PTR \<Rightarrow> ptable \<Rightarrow> fault + (pcb_PTR \<times> ptable)" where
  "removeChild prnt pt =
     (case prnt of
        None \<Rightarrow> Inl NullDeref
      | Some pr \<Rightarrow>
          (case p_child (pt pr) of
             None \<Rightarrow> Inr (None, pt)
           | Some firstChild \<Rightarrow>
               (case p_prevSib (pt firstChild) of
                  None \<Rightarrow>
                    (let pt1 = pt(firstChild := (pt firstChild)\<lparr>p_prnt := None\<rparr>);
                         pt2 = pt1(pr := (pt1 pr)\<lparr>p_child := None\<rparr>)
                     in Inr (Some firstChild, pt2))
                | Some ps \<Rightarrow>
                    (let pt1 = pt(pr := (pt pr)\<lparr>p_child := p_prevSib (pt firstChild)\<rparr>);
                         pt2 = pt1(ps := (pt1 ps)\<lparr>p_nextSib := None\<rparr>);
                         pt3 = pt2(firstChild := (pt2 firstChild)\<lparr>p_prevSib := None\<rparr>);
                         pt4 = pt3(firstChild := (pt3 firstChild)\<lparr>p_prnt := None\<rparr>)
                     in Inr (Some firstChild, pt4)))))"

definition outChild :: "pcb_PTR \<Rightarrow> ptable \<Rightarrow> fault + (pcb_PTR \<times> ptable)" where
  "outChild p pt =
     (case p of
        None \<Rightarrow> Inl NullDeref
      | Some pi \<Rightarrow>
          (case p_prnt (pt pi) of
             None \<Rightarrow> Inr (None, pt)
           | Some pr \<Rightarrow>
               if p = p_child (pt pr) then removeChild (p_prnt (pt pi)) pt
               else
                 (case p_nextSib (pt pi) of
                    None \<Rightarrow> Inl NullDeref
                  | Some ns \<Rightarrow>
                      (case p_prevSib (pt pi) of
                         None \<Rightarrow>
                           (let pt1 = pt(ns := (pt ns)\<lparr>p_prevSib := None\<rparr>);
                                pt2 = pt1(pi := (pt1 pi)\<lparr>p_nextSib := None\<rparr>);
                                pt3 = pt2(pi := (pt2 pi)\<lparr>p_prnt := None\<rparr>)
                            in Inr (p, pt3))
                       | Some ps \<Rightarrow>
                           (let pt1 = pt(ns := (pt ns)\<lparr>p_prevSib := p_prevSib (pt pi)\<rparr>);
                                pt2 = pt1(ps := (pt1 ps)\<lparr>p_nextSib := p_nextSib (pt1 pi)\<rparr>);
                                pt3 = pt2(pi := (pt2 pi)\<lparr>p_prevSib := None\<rparr>);
                                pt4 = pt3(pi := (pt3 pi)\<lparr>p_nextSib := None\<rparr>);
                                pt5 = pt4(pi := (pt4 pi)\<lparr>p_prnt := None\<rparr>)
                            in Inr (p, pt5))))))"

text \<open>\<open>allocPcb\<close> resets the six link fields and \<open>p_time\<close>, and nothing else.\<close>

definition allocPcb :: "kstate \<Rightarrow> fault + (pcb_PTR \<times> kstate)" where
  "allocPcb s =
     (if pcbList_h s = None then Inr (None, s)
      else
        (case removeProcQ (pcbList_h s) (procTable s) of
           Inl e \<Rightarrow> Inl e
         | Inr (unusedPCB, tp, pt) \<Rightarrow>
             (case unusedPCB of
                None \<Rightarrow> Inl NullDeref
              | Some u \<Rightarrow>
                  Inr (unusedPCB,
                       s\<lparr>pcbList_h := tp,
                         procTable := pt(u := (pt u)\<lparr>p_next := None, p_prev := None,
                           p_prnt := None, p_child := None, p_nextSib := None,
                           p_prevSib := None, p_time := 0\<rparr>)\<rparr>))))"

definition freePcb :: "pcb_PTR \<Rightarrow> kstate \<Rightarrow> fault + kstate" where
  "freePcb p s =
     (case insertProcQ (pcbList_h s) p (procTable s) of
        Inl e \<Rightarrow> Inl e
      | Inr (tp, pt) \<Rightarrow> Inr (s\<lparr>pcbList_h := tp, procTable := pt\<rparr>))"

section \<open>The active semaphore list (phase1/asl.c)\<close>

text \<open>\<open>freeSemd\<close> is only called with the address of a table entry, so its argument is
  the entry's index.\<close>

definition freeSemd :: "nat \<Rightarrow> kstate \<Rightarrow> kstate" where
  "freeSemd semd s =
     (if semdFree_h s = None then
        s\<lparr>semdFree_h := Some semd,
          semdTable := (semdTable s)(semd := (semdTable s semd)\<lparr>s_next := None\<rparr>)\<rparr>
      else
        s\<lparr>semdTable := (semdTable s)(semd := (semdTable s semd)\<lparr>s_next := semdFree_h s\<rparr>),
          semdFree_h := Some semd\<rparr>)"

definition allocateSemd :: "kstate \<Rightarrow> semd_PTR \<times> kstate" where
  "allocateSemd s =
     (case semdFree_h s of
        None \<Rightarrow> (None, s)
      | Some f \<Rightarrow>
          (let s1 = (if s_next (semdTable s f) = None then s\<lparr>semdFree_h := None\<rparr>
                     else s\<lparr>semdFree_h := s_next (semdTable s f),
                            semdTable := (semdTable s)(f := (semdTable s f)\<lparr>s_next := None\<rparr>)\<rparr>)
           in (Some f,
               s1\<lparr>semdTable := (semdTable s1)(f := (semdTable s1 f)
                    \<lparr>s_next := None, s_semAdd := 0, s_procQ := None\<rparr>)\<rparr>)))"

definition initASL :: "kstate \<Rightarrow> fault + kstate" where
  "initASL s =
     (let s1 = fold freeSemd [0..<MAXPROC + 2] (s\<lparr>semdFree_h := None\<rparr>) in
      case allocateSemd s1 of
        (topDummyNode, s2) \<Rightarrow>
          (case topDummyNode of
             None \<Rightarrow> Inl NullDeref
           | Some t \<Rightarrow>
               (let s3 = s2\<lparr>semdTable := (semdTable s2)(t := (semdTable s2 t)
                              \<lparr>s_next := None, s_semAdd := 0\<rparr>)\<rparr> in
                case allocateSemd s3 of
                  (bottomDummyNode, s4) \<Rightarrow>
                    (case bottomDummyNode of
                       None \<Rightarrow> Inl NullDeref
                     | Some b \<Rightarrow>
                         (let s5 = s4\<lparr>semdTable := (semdTable s4)(b := (semdTable s4 b)
                                        \<lparr>s_next := None, s_semAdd := 0xFFFFFF\<rparr>)\<rparr>
                          in Inr (s5\<lparr>semd_h := topDummyNode\<rparr>))))))"

text \<open>The loop of \<open>findPrevSemd\<close>. Its condition reads \<open>currentSemd->s_next->s_semAdd\<close>
  before it tests \<open>currentSemd->s_next != NULL\<close>. On a cyclic list the loop of the source
  does not end; then the value is \<open>None\<close>.\<close>

partial_function (option) findPrevSemd_loop ::
    "nat \<Rightarrow> (nat \<Rightarrow> semd_t) \<Rightarrow> semd_PTR \<Rightarrow> (fault + semd_PTR) option" where
  "findPrevSemd_loop semAdd tbl currentSemd =
     (case currentSemd of
        None \<Rightarrow> Some (Inl NullDeref)
      | Some c \<Rightarrow>
          (case s_next (tbl c) of
             None \<Rightarrow> Some (Inl NullDeref)
           | Some n \<Rightarrow>
               if s_semAdd (tbl n) < semAdd \<and> s_next (tbl c) \<noteq> None
               then findPrevSemd_loop semAdd tbl (s_next (tbl c))
               else Some (Inr currentSemd)))"

definition findPrevSemd :: "nat \<Rightarrow> kstate \<Rightarrow> (fault + semd_PTR) option" where
  "findPrevSemd semAdd s = findPrevSemd_loop semAdd (semdTable s) (semd_h s)"

text \<open>The common end of \<open>removeBlocked\<close> and \<open>outBlocked\<close>: when the queue of the
  descriptor \<open>prevSemd->s_next\<close> is empty, the descriptor is unlinked and freed.\<close>

definition unweave :: "nat \<Rightarrow> kstate \<Rightarrow> fault + kstate" where
  "unweave pv s =
     (case s_next (semdTable s pv) of
        None \<Rightarrow> Inl NullDeref
      | Some n \<Rightarrow>
          if emptyProcQ (s_procQ (semdTable s n)) then
            (let s1 = s\<lparr>semdTable := (semdTable s)(pv := (semdTable s pv)
                          \<lparr>s_next := s_next (semdTable s n)\<rparr>)\<rparr>;
                 s2 = s1\<lparr>semdTable := (semdTable s1)(n := (semdTable s1 n)\<lparr>s_next := None\<rparr>)\<rparr>
             in Inr (freeSemd n s2))
          else Inr s)"

text \<open>The result is (TRUE when no descriptor could be allocated, state).\<close>

definition insertBlocked :: "nat \<Rightarrow> pcb_PTR \<Rightarrow> kstate \<Rightarrow> (fault + (bool \<times> kstate)) option" where
  "insertBlocked semAdd p s =
     (case findPrevSemd semAdd s of
        None \<Rightarrow> None
      | Some (Inl e) \<Rightarrow> Some (Inl e)
      | Some (Inr prevSemd) \<Rightarrow>
          Some
            (case prevSemd of
               None \<Rightarrow> Inl NullDeref
             | Some pv \<Rightarrow>
                 (case (case s_next (semdTable s pv) of
                          None \<Rightarrow> None
                        | Some n \<Rightarrow> if s_semAdd (semdTable s n) \<noteq> semAdd then None else Some n) of
                    None \<Rightarrow>
                      (case allocateSemd s of
                         (None, s1) \<Rightarrow> Inr (True, s1)
                       | (Some newSemd, s1) \<Rightarrow>
                           (case p of
                              None \<Rightarrow> Inl NullDeref
                            | Some pi \<Rightarrow>
                                (let s2 = s1\<lparr>semdTable := (semdTable s1)(newSemd :=
                                            (semdTable s1 newSemd)\<lparr>s_semAdd := semAdd\<rparr>)\<rparr>;
                                     s3 = s2\<lparr>procTable := (procTable s2)(pi := (procTable s2 pi)
                                            \<lparr>p_semAdd := s_semAdd (semdTable s2 newSemd)\<rparr>)\<rparr>;
                                     s4 = s3\<lparr>semdTable := (semdTable s3)(newSemd :=
                                            (semdTable s3 newSemd)\<lparr>s_procQ := mkEmptyProcQ\<rparr>)\<rparr>
                                 in case insertProcQ (s_procQ (semdTable s4 newSemd)) p (procTable s4) of
                                      Inl e \<Rightarrow> Inl e
                                    | Inr (tp, pt) \<Rightarrow>
                                        (let s5 = s4\<lparr>procTable := pt,
                                                   semdTable := (semdTable s4)(newSemd :=
                                                     (semdTable s4 newSemd)\<lparr>s_procQ := tp\<rparr>)\<rparr>;
                                             s6 = s5\<lparr>semdTable := (semdTable s5)(newSemd :=
                                                     (semdTable s5 newSemd)
                                                       \<lparr>s_next := s_next (semdTable s5 pv)\<rparr>)\<rparr>;
                                             s7 = s6\<lparr>semdTable := (semdTable s6)(pv :=
                                                     (semdTable s6 pv)\<lparr>s_next := Some newSemd\<rparr>)\<rparr>
                                         in Inr (False, s7)))))
                  | Some n \<Rightarrow>
                      (case insertProcQ (s_procQ (semdTable s n)) p (procTable s) of
                         Inl e \<Rightarrow> Inl e
                       | Inr (tp, pt) \<Rightarrow>
                           (case p of
                              None \<Rightarrow> Inl NullDeref
                            | Some pi \<Rightarrow>
                                Inr (False,
                                     s\<lparr>procTable := pt(pi := (pt pi)\<lparr>p_semAdd := semAdd\<rparr>),
                                       semdTable := (semdTable s)(n := (semdTable s n)
                                         \<lparr>s_procQ := tp\<rparr>)\<rparr>))))))"

text \<open>\<open>removeBlocked\<close>, \<open>outBlocked\<close> and \<open>headBlocked\<close> read
  \<open>prevSemd->s_next->s_semAdd\<close> before they test \<open>prevSemd->s_next == NULL\<close>.
  The result of the first two is (returned pointer, state).\<close>

definition removeBlocked :: "nat \<Rightarrow> kstate \<Rightarrow> (fault + (pcb_PTR \<times> kstate)) option" where
  "removeBlocked semAdd s =
     (case findPrevSemd semAdd s of
        None \<Rightarrow> None
      | Some (Inl e) \<Rightarrow> Some (Inl e)
      | Some (Inr prevSemd) \<Rightarrow>
          Some
            (case prevSemd of
               None \<Rightarrow> Inl NullDeref
             | Some pv \<Rightarrow>
                 (case s_next (semdTable s pv) of
                    None \<Rightarrow> Inl NullDeref
                  | Some n \<Rightarrow>
                      if s_semAdd (semdTable s n) \<noteq> semAdd \<or> s_next (semdTable s pv) = None
                      then Inr (None, s)
                      else
                        (case removeProcQ (s_procQ (semdTable s n)) (procTable s) of
                           Inl e \<Rightarrow> Inl e
                         | Inr (retPcb, tp, pt) \<Rightarrow>
                             (case unweave pv
                                     (s\<lparr>procTable := pt,
                                        semdTable := (semdTable s)(n := (semdTable s n)
                                          \<lparr>s_procQ := tp\<rparr>)\<rparr>) of
                                Inl e \<Rightarrow> Inl e
                              | Inr s' \<Rightarrow> Inr (retPcb, s'))))))"

definition outBlocked :: "pcb_PTR \<Rightarrow> kstate \<Rightarrow> (fault + (pcb_PTR \<times> kstate)) option" where
  "outBlocked p s =
     (case p of
        None \<Rightarrow> Some (Inl NullDeref)
      | Some pi \<Rightarrow>
          (case findPrevSemd (p_semAdd (procTable s pi)) s of
             None \<Rightarrow> None
           | Some (Inl e) \<Rightarrow> Some (Inl e)
           | Some (Inr prevSemd) \<Rightarrow>
               (case prevSemd of
                  None \<Rightarrow> Some (Inl NullDeref)
                | Some pv \<Rightarrow>
                    (case s_next (semdTable s pv) of
                       None \<Rightarrow> Some (Inl NullDeref)
                     | Some n \<Rightarrow>
                         if s_semAdd (semdTable s n) \<noteq> p_semAdd (procTable s pi)
                            \<or> s_next (semdTable s pv) = None
                         then Some (Inr (None, s))
                         else
                           (case outProcQ (s_procQ (semdTable s n)) p (procTable s) of
                              None \<Rightarrow> None
                            | Some (Inl e) \<Rightarrow> Some (Inl e)
                            | Some (Inr (retPcb, tp, pt)) \<Rightarrow>
                                (let s1 = s\<lparr>procTable := pt,
                                           semdTable := (semdTable s)(n := (semdTable s n)
                                             \<lparr>s_procQ := tp\<rparr>)\<rparr>
                                 in if retPcb = None then Some (Inr (None, s1))
                                    else
                                      (case unweave pv s1 of
                                         Inl e \<Rightarrow> Some (Inl e)
                                       | Inr s' \<Rightarrow> Some (Inr (retPcb, s')))))))))"

definition headBlocked :: "nat \<Rightarrow> kstate \<Rightarrow> (fault + pcb_PTR) option" where
  "headBlocked semAdd s =
     (case findPrevSemd semAdd s of
        None \<Rightarrow> None
      | Some (Inl e) \<Rightarrow> Some (Inl e)
      | Some (Inr prevSemd) \<Rightarrow>
          Some
            (case prevSemd of
               None \<Rightarrow> Inl NullDeref
             | Some pv \<Rightarrow>
                 (case s_next (semdTable s pv) of
                    None \<Rightarrow> Inl NullDeref
                  | Some n \<Rightarrow>
                      if s_semAdd (semdTable s n) \<noteq> semAdd \<or> s_next (semdTable s pv) = None
                      then Inr None
                      else Inr (headProcQ (s_procQ (semdTable s n)) (procTable s)))))"

section \<open>Platform services and helpers (phase2/exceptions.c)\<close>

text \<open>
  A handler never returns to its caller: it ends in one of the platform services \<open>LDST\<close>,
  \<open>HALT\<close>, \<open>PANIC\<close> or \<open>WAIT\<close>, none of which comes back (after \<open>WAIT\<close> the next
  interrupt enters \<open>interruptHandler\<close> afresh), or in undefined behaviour. A handler is a
  function from the state to that \<open>outcome\<close> and the state at that point; where it runs
  a loop of the source that may not end, the result is an \<open>option\<close> and \<open>None\<close> means
  that the loop does not end.
\<close>

datatype outcome = LDST state_t | HALT | PANIC | WAIT | Fault fault

definition getTODLO :: "kstate \<Rightarrow> word32 \<times> kstate" where
  "getTODLO s = (tod s (todIdx s), s\<lparr>todIdx := Suc (todIdx s)\<rparr>)"

definition setTIMER :: "word32 \<Rightarrow> kstate \<Rightarrow> kstate" where
  "setTIMER v s = s\<lparr>timer := v\<rparr>"

definition setSTATUS :: "word32 \<Rightarrow> kstate \<Rightarrow> kstate" where
  "setSTATUS v s = s\<lparr>cpu_status := v\<rparr>"

text \<open>The address of \<open>g_lotOfSemaphores[i]\<close>, and the index of \<open>g_deviceStatus[i]\<close>.\<close>

definition lotAddr :: "int \<Rightarrow> kstate \<Rightarrow> fault + nat" where
  "lotAddr i s = (if 0 \<le> i \<and> i < MAXSEMA4 then Inr (lotBase s + 4 * nat i) else Inl OutOfBounds)"

definition copyState :: "state_t \<Rightarrow> state_t \<Rightarrow> state_t" where
  "copyState origin destination =
     destination\<lparr>a1 := a1 origin, a2 := a2 origin, a3 := a3 origin, a4 := a4 origin,
       v1 := v1 origin, v2 := v2 origin, v3 := v3 origin, v4 := v4 origin,
       v5 := v5 origin, v6 := v6 origin, sl := sl origin, fp := fp origin,
       ip := ip origin, sp := sp origin, lr := lr origin, pc := pc origin,
       cpsr := cpsr origin, CP15_Control := CP15_Control origin,
       CP15_EntryHi := CP15_EntryHi origin, CP15_Cause := CP15_Cause origin,
       TOD_Hi := TOD_Hi origin, TOD_Low := TOD_Low origin\<rparr>"

definition loadState :: "kstate \<Rightarrow> outcome \<times> kstate" where
  "loadState s =
     (case g_currentProc s of
        None \<Rightarrow> (Fault NullDeref, s)
      | Some c \<Rightarrow> (LDST (p_s (procTable s c)), s))"

definition updateTime :: "kstate \<Rightarrow> fault + kstate" where
  "updateTime s =
     (case getTODLO s of
        (t, s1) \<Rightarrow>
          (let s2 = s1\<lparr>g_endTOD := t\<rparr>;
               s3 = s2\<lparr>g_accTime := g_endTOD s2 - g_startTOD s2\<rparr>
           in case g_currentProc s3 of
                None \<Rightarrow> Inl NullDeref
              | Some c \<Rightarrow>
                  (let s4 = s3\<lparr>procTable := (procTable s3)(c := (procTable s3 c)
                                 \<lparr>p_time := p_time (procTable s3 c) + g_accTime s3\<rparr>)\<rparr>
                   in Inr (s4\<lparr>g_startTOD := g_endTOD s4\<rparr>))))"

section \<open>The scheduler (phase2/scheduler.c)\<close>

text \<open>\<open>getTODLO\<close> returns an \<open>unsigned int\<close>, so the differences
  \<open>g_endOfInterval - getTODLO()\<close> of the dispatch path are unsigned, as the comparison of
  \<open>lineTwoHandler\<close> is: the test against 0 reads the time of day and never holds, and the
  test against \<open>QUANTUM\<close> reads it again.\<close>

definition scheduler :: "kstate \<Rightarrow> outcome \<times> kstate" where
  "scheduler s =
     (if emptyProcQ (g_readyQueue s) then
        (if g_procCount s = 0 then (HALT, s)
         else if g_softBlockCount s = 0 then (PANIC, s)
         else
           (let s1 = setSTATUS ((ALLOFF AND INTSENABLED) OR SYSMODE) s in
            case getTODLO s1 of
              (t1, s2) \<Rightarrow>
                (let s3 = s2\<lparr>g_endOfInterval := t1 + INTERVAL\<rparr> in
                 case getTODLO s3 of
                   (t2, s4) \<Rightarrow> (WAIT, setTIMER (g_endOfInterval s4 - t2) s4))))
      else
        (case removeProcQ (g_readyQueue s) (procTable s) of
           Inl e \<Rightarrow> (Fault e, s)
         | Inr (r, tp, pt) \<Rightarrow>
             (let s1 = s\<lparr>g_readyQueue := tp, procTable := pt, g_currentProc := r\<rparr> in
              case getTODLO s1 of
                (t1, s2) \<Rightarrow>
                  (case (if g_endOfInterval s2 - t1 < 0 then (True, s2)
                         else (case getTODLO s2 of
                                 (t2, s3) \<Rightarrow> (QUANTUM \<le> g_endOfInterval s3 - t2, s3))) of
                     (fullQuantum, s4) \<Rightarrow>
                       (let s5 = (if fullQuantum then setTIMER QUANTUM s4
                                  else (case getTODLO s4 of
                                          (t3, s4') \<Rightarrow> setTIMER (g_endOfInterval s4' - t3) s4'))
                        in case getTODLO s5 of
                             (t4, s6) \<Rightarrow> loadState (s6\<lparr>g_startTOD := t4\<rparr>))))))"

section \<open>Exception handling (phase2/exceptions.c)\<close>

text \<open>Cases 1 to 3 of \<open>depthFirstMurder\<close>, \<open>freePcb\<close> and the decrement of the process
  count: what the function does once \<open>observedProcess\<close> has no child left.\<close>

definition depthFirstMurder_kill :: "pcb_PTR \<Rightarrow> kstate \<Rightarrow> (fault + kstate) option" where
  "depthFirstMurder_kill observedProcess s =
     (case observedProcess of
        None \<Rightarrow> Some (Inl NullDeref)
      | Some ob \<Rightarrow>
          (case (if g_currentProc s = observedProcess then
                   (case outChild observedProcess (procTable s) of
                      Inl e \<Rightarrow> Some (Inl e)
                    | Inr (r, pt) \<Rightarrow> Some (Inr (s\<lparr>procTable := pt, g_currentProc := None\<rparr>)))
                 else if p_semAdd (procTable s ob) = 0 then
                   (case outProcQ (g_readyQueue s) observedProcess (procTable s) of
                      None \<Rightarrow> None
                    | Some (Inl e) \<Rightarrow> Some (Inl e)
                    | Some (Inr (r, tp, pt)) \<Rightarrow> Some (Inr (s\<lparr>g_readyQueue := tp, procTable := pt\<rparr>)))
                 else
                   (case outBlocked observedProcess s of
                      None \<Rightarrow> None
                    | Some (Inl e) \<Rightarrow> Some (Inl e)
                    | Some (Inr (r, s1)) \<Rightarrow>
                        (let a = p_semAdd (procTable s1 ob) in
                         if lotBase s1 \<le> a \<and> a \<le> lotBase s1 + 4 * nat LASTSEMINDEX
                         then Some (Inr (s1\<lparr>g_softBlockCount := g_softBlockCount s1 - 1\<rparr>))
                         else Some (Inr (s1\<lparr>sems := (sems s1)(a := sems s1 a + 1)\<rparr>))))) of
             None \<Rightarrow> None
           | Some (Inl e) \<Rightarrow> Some (Inl e)
           | Some (Inr s2) \<Rightarrow>
               (case freePcb observedProcess s2 of
                  Inl e \<Rightarrow> Some (Inl e)
                | Inr s3 \<Rightarrow> Some (Inr (s3\<lparr>g_procCount := g_procCount s3 - 1\<rparr>)))))"

text \<open>The loop at the head of \<open>depthFirstMurder\<close> kills the first child and tests
  \<open>emptyChild\<close> again; that is the same function on the state after the kill. On a
  cyclic process tree the recursion of the source does not end; then the value is
  \<open>None\<close>.\<close>

partial_function (option) depthFirstMurder :: "pcb_PTR \<Rightarrow> kstate \<Rightarrow> (fault + kstate) option" where
  "depthFirstMurder observedProcess s =
     (case emptyChild observedProcess (procTable s) of
        Inl e \<Rightarrow> Some (Inl e)
      | Inr noChild \<Rightarrow>
          if \<not> noChild then
            (case removeChild observedProcess (procTable s) of
               Inl e \<Rightarrow> Some (Inl e)
             | Inr (child, pt) \<Rightarrow>
                 Option.bind (depthFirstMurder child (s\<lparr>procTable := pt\<rparr>))
                   (\<lambda>r. case r of
                          Inl e \<Rightarrow> Some (Inl e)
                        | Inr s1 \<Rightarrow> depthFirstMurder observedProcess s1))
          else depthFirstMurder_kill observedProcess s)"

definition terminateProcess :: "kstate \<Rightarrow> (outcome \<times> kstate) option" where
  "terminateProcess s =
     (case depthFirstMurder (g_currentProc s) s of
        None \<Rightarrow> None
      | Some (Inl e) \<Rightarrow> Some (Fault e, s)
      | Some (Inr s1) \<Rightarrow> Some (scheduler s1))"

text \<open>\<open>createProcess\<close> writes the completion status through its argument, the pointer
  taken from the caller's \<open>a2\<close>.\<close>

definition createProcess :: "nat \<Rightarrow> kstate \<Rightarrow> outcome \<times> kstate" where
  "createProcess parentState s =
     (case allocPcb s of
        Inl e \<Rightarrow> (Fault e, s)
      | Inr (newPcb, s1) \<Rightarrow>
          if parentState = 0 then (Fault NullDeref, s1)
          else
            (case newPcb of
               Some np \<Rightarrow>
                 (let s2 = s1\<lparr>procTable := (procTable s1)(np := (procTable s1 np)
                                \<lparr>p_s := copyState (stmem s1 parentState) (p_s (procTable s1 np))\<rparr>)\<rparr>
                  in case insertChild (g_currentProc s2) newPcb (procTable s2) of
                       Inl e \<Rightarrow> (Fault e, s2)
                     | Inr pt \<Rightarrow>
                         (let s3 = s2\<lparr>procTable := pt\<rparr> in
                          case insertProcQ (g_readyQueue s3) newPcb (procTable s3) of
                            Inl e \<Rightarrow> (Fault e, s3)
                          | Inr (tp, pt') \<Rightarrow>
                              (let s4 = s3\<lparr>g_readyQueue := tp, procTable := pt'\<rparr>;
                                   s5 = s4\<lparr>g_procCount := g_procCount s4 + 1\<rparr>;
                                   s6 = s5\<lparr>stmem := (stmem s5)(parentState :=
                                          (stmem s5 parentState)\<lparr>a1 := SUCCESS\<rparr>)\<rparr>
                               in loadState s6)))
             | None \<Rightarrow>
                 loadState (s1\<lparr>stmem := (stmem s1)(parentState :=
                              (stmem s1 parentState)\<lparr>a1 := FAILURE\<rparr>)\<rparr>)))"

definition verhogen :: "nat \<Rightarrow> kstate \<Rightarrow> (outcome \<times> kstate) option" where
  "verhogen semAdd s =
     (if semAdd = 0 then Some (Fault NullDeref, s)
      else
        (let s1 = s\<lparr>sems := (sems s)(semAdd := sems s semAdd + 1)\<rparr> in
         if sems s1 semAdd \<le> 0 then
           (case removeBlocked semAdd s1 of
              None \<Rightarrow> None
            | Some (Inl e) \<Rightarrow> Some (Fault e, s1)
            | Some (Inr (signaledProc, s2)) \<Rightarrow>
                (case signaledProc of
                   None \<Rightarrow> Some (PANIC, s2)
                 | Some sg \<Rightarrow>
                     (let s3 = s2\<lparr>procTable := (procTable s2)(sg := (procTable s2 sg)
                                    \<lparr>p_semAdd := 0\<rparr>)\<rparr>
                      in case insertProcQ (g_readyQueue s3) signaledProc (procTable s3) of
                           Inl e \<Rightarrow> Some (Fault e, s3)
                         | Inr (tp, pt) \<Rightarrow>
                             Some (loadState (s3\<lparr>g_readyQueue := tp, procTable := pt\<rparr>)))))
         else Some (loadState s1)))"

text \<open>The common end of \<open>passeren\<close>, \<open>waitClock\<close> and \<open>waitIO\<close> when the caller blocks:
  \<open>updateTime\<close>, \<open>insertBlocked\<close> (its result is ignored), for the two device services
  the increment of the soft-block count, then \<open>g_currentProc = NULL\<close> and the scheduler.\<close>

definition blockCurrent :: "nat \<Rightarrow> bool \<Rightarrow> kstate \<Rightarrow> (outcome \<times> kstate) option" where
  "blockCurrent semAdd soft s =
     (case updateTime s of
        Inl e \<Rightarrow> Some (Fault e, s)
      | Inr s1 \<Rightarrow>
          (case insertBlocked semAdd (g_currentProc s1) s1 of
             None \<Rightarrow> None
           | Some (Inl e) \<Rightarrow> Some (Fault e, s1)
           | Some (Inr (r, s2)) \<Rightarrow>
               (let s3 = (if soft then s2\<lparr>g_softBlockCount := g_softBlockCount s2 + 1\<rparr> else s2)
                in Some (scheduler (s3\<lparr>g_currentProc := None\<rparr>)))))"

definition passeren :: "nat \<Rightarrow> kstate \<Rightarrow> (outcome \<times> kstate) option" where
  "passeren semAdd s =
     (if semAdd = 0 then Some (Fault NullDeref, s)
      else
        (let s1 = s\<lparr>sems := (sems s)(semAdd := sems s semAdd - 1)\<rparr> in
         if sems s1 semAdd < 0 then blockCurrent semAdd False s1
         else Some (loadState s1)))"

definition spectrapvec :: "int \<Rightarrow> nat \<Rightarrow> nat \<Rightarrow> kstate \<Rightarrow> (outcome \<times> kstate) option" where
  "spectrapvec trapType oldProcState newProcState s =
     (case g_currentProc s of
        None \<Rightarrow> Some (Fault NullDeref, s)
      | Some c \<Rightarrow>
          if trapType < 0 \<or> 3 \<le> trapType then Some (Fault OutOfBounds, s)
          else if oldState (stateArray (procTable s c) (nat trapType)) = 0 then
            Some (loadState (s\<lparr>procTable := (procTable s)(c := (procTable s c)
                    \<lparr>stateArray := (stateArray (procTable s c))(nat trapType :=
                       \<lparr>oldState = oldProcState, newState = newProcState\<rparr>)\<rparr>)\<rparr>))
          else terminateProcess s)"

definition getCPUTime :: "kstate \<Rightarrow> outcome \<times> kstate" where
  "getCPUTime s =
     (case updateTime s of
        Inl e \<Rightarrow> (Fault e, s)
      | Inr s1 \<Rightarrow>
          (case g_currentProc s1 of
             None \<Rightarrow> (Fault NullDeref, s1)
           | Some c \<Rightarrow>
               loadState (s1\<lparr>procTable := (procTable s1)(c := (procTable s1 c)
                  \<lparr>p_s := (p_s (procTable s1 c))\<lparr>a1 := p_time (procTable s1 c)\<rparr>\<rparr>)\<rparr>)))"

definition waitClock :: "kstate \<Rightarrow> (outcome \<times> kstate) option" where
  "waitClock s =
     (case lotAddr CLOCKINDEX s of
        Inl e \<Rightarrow> Some (Fault e, s)
      | Inr a \<Rightarrow>
          (let s1 = s\<lparr>sems := (sems s)(a := sems s a - 1)\<rparr> in
           if sems s1 a < 0 then blockCurrent a True s1
           else Some (PANIC, s1)))"

definition getSemaphoreIndex :: "int \<Rightarrow> int \<Rightarrow> int" where
  "getSemaphoreIndex trueLineNumber deviceNumber =
     TOTALDEVICES * (trueLineNumber - DEVICEOFFSET) + deviceNumber"

definition waitIO :: "int \<Rightarrow> int \<Rightarrow> int \<Rightarrow> kstate \<Rightarrow> (outcome \<times> kstate) option" where
  "waitIO intlNO dnum waitForTermRead s =
     (let semaphoreIndex0 = getSemaphoreIndex intlNO dnum;
          semaphoreIndex = (if intlNO = LINENUMSEVEN \<and> waitForTermRead = 0
                            then semaphoreIndex0 + TOTALDEVICES else semaphoreIndex0)
      in case lotAddr semaphoreIndex s of
           Inl e \<Rightarrow> Some (Fault e, s)
         | Inr a \<Rightarrow>
             (let s1 = s\<lparr>sems := (sems s)(a := sems s a - 1)\<rparr> in
              if sems s1 a < 0 then blockCurrent a True s1
              else
                (case g_currentProc s1 of
                   None \<Rightarrow> Some (Fault NullDeref, s1)
                 | Some c \<Rightarrow>
                     Some (loadState (s1\<lparr>procTable := (procTable s1)(c := (procTable s1 c)
                       \<lparr>p_s := (p_s (procTable s1 c))
                          \<lparr>a1 := g_deviceStatus s1 (nat semaphoreIndex)\<rparr>\<rparr>)\<rparr>)))))"

definition passUpOrDie :: "nat \<Rightarrow> nat \<Rightarrow> kstate \<Rightarrow> (outcome \<times> kstate) option" where
  "passUpOrDie trapType oldStateAddr s =
     (case g_currentProc s of
        None \<Rightarrow> Some (Fault NullDeref, s)
      | Some c \<Rightarrow>
          if newState (stateArray (procTable s c) trapType) = 0 then terminateProcess s
          else
            (let dst = oldState (stateArray (procTable s c) trapType) in
             if dst = 0 then Some (Fault NullDeref, s)
             else
               (let s1 = s\<lparr>stmem := (stmem s)(dst := copyState (stmem s oldStateAddr) (stmem s dst))\<rparr>;
                    s2 = s1\<lparr>procTable := (procTable s1)(c := (procTable s1 c)
                           \<lparr>p_s := copyState
                                    (stmem s1 (newState (stateArray (procTable s1 c) trapType)))
                                    (p_s (procTable s1 c))\<rparr>)\<rparr>
                in Some (loadState s2))))"

definition PGMTrapHandler :: "kstate \<Rightarrow> (outcome \<times> kstate) option" where
  "PGMTrapHandler s = passUpOrDie (nat PGMTRAP) PGMTOLDADD s"

definition TLBTrapHandler :: "kstate \<Rightarrow> (outcome \<times> kstate) option" where
  "TLBTrapHandler s = passUpOrDie (nat TLBTRAP) TLBOLDADD s"

text \<open>The tail of \<open>SYSCallHandler\<close>: a service requested outside SYS mode (or a service
  number the switch does not list) becomes a program trap.\<close>

definition simulatePGMTrap :: "kstate \<Rightarrow> (outcome \<times> kstate) option" where
  "simulatePGMTrap s =
     (let s1 = s\<lparr>stmem := (stmem s)(PGMTOLDADD :=
                    copyState (stmem s SYSOLDADD) (stmem s PGMTOLDADD))\<rparr>;
          s2 = s1\<lparr>stmem := (stmem s1)(PGMTOLDADD := (stmem s1 PGMTOLDADD)\<lparr>CP15_Cause := RI\<rparr>)\<rparr>
      in PGMTrapHandler s2)"

definition SYSCallHandler :: "kstate \<Rightarrow> (outcome \<times> kstate) option" where
  "SYSCallHandler s =
     (case g_currentProc s of
        None \<Rightarrow> Some (Fault NullDeref, s)
      | Some c \<Rightarrow>
          (let s1 = s\<lparr>procTable := (procTable s)(c := (procTable s c)
                       \<lparr>p_s := copyState (stmem s SYSOLDADD) (p_s (procTable s c))\<rparr>)\<rparr>;
               oldSYS = stmem s1 SYSOLDADD;
               SYSNum = sint (a1 oldSYS)
           in if SYSNum > WAITIO then passUpOrDie (nat SYSTRAP) SYSOLDADD s1
              else if (cpsr (p_s (procTable s1 c)) AND SYSMODE) = SYSMODE then
                (if SYSNum = CREATEPROCESS then Some (createProcess (unat (a2 oldSYS)) s1)
                 else if SYSNum = TERMINATEPROCESS then terminateProcess s1
                 else if SYSNum = VERHOGEN then verhogen (unat (a2 oldSYS)) s1
                 else if SYSNum = PASSEREN then passeren (unat (a2 oldSYS)) s1
                 else if SYSNum = SPECTRAPVEC then
                   spectrapvec (sint (a2 oldSYS)) (unat (a3 oldSYS)) (unat (a4 oldSYS)) s1
                 else if SYSNum = GETCPUTIME then Some (getCPUTime s1)
                 else if SYSNum = WAITCLOCK then waitClock s1
                 else if SYSNum = WAITIO then
                   waitIO (sint (a2 oldSYS)) (sint (a3 oldSYS)) (sint (a4 oldSYS)) s1
                 else simulatePGMTrap s1)
              else simulatePGMTrap s1))"

section \<open>Interrupt handling (phase2/interrupts.c)\<close>





text \<open>The common end of \<open>intervalTimerHandler\<close> and \<open>externalDeviceHandler\<close>: the
  interrupted process is resumed when there is one, else the scheduler runs.\<close>

definition resumeOrSchedule :: "kstate \<Rightarrow> outcome \<times> kstate" where
  "resumeOrSchedule s =
     (if g_currentProc s \<noteq> None then
        (case getTODLO s of (t, s1) \<Rightarrow> loadState (s1\<lparr>g_startTOD := t\<rparr>))
      else scheduler s)"





text \<open>The terminal check of \<open>externalDeviceHandler\<close>: the semaphore index and the
  terminal mode after it.\<close>

definition terminalCheck :: "int \<Rightarrow> int \<Rightarrow> devreg_t \<Rightarrow> int \<times> bool" where
  "terminalCheck semaphoreIndex trueLineNumber interruptingDevice =
     (if trueLineNumber = LINENUMSEVEN
         \<and> (recv_status interruptingDevice AND ISOLATEREADY) = DEVICEREADY
      then (semaphoreIndex + TOTALDEVICES, TRANSMITTING)
      else (semaphoreIndex, RECEIVING))"

text \<open>The V operation of \<open>externalDeviceHandler\<close> and what follows it up to the final
  resume; \<open>dev\<close> is the index of the interrupting device's register, and the result is
  the state before the resume, or the point where the handler stops.
  Device registers are plain memory in the model: a write to a command field does not
  change a status field.\<close>

definition signalDevice ::
    "int \<Rightarrow> int \<Rightarrow> bool \<Rightarrow> int \<Rightarrow> kstate \<Rightarrow> ((outcome \<times> kstate) + kstate) option" where
  "signalDevice dev semaphoreIndex terminalMode trueLineNumber s =
     (case lotAddr semaphoreIndex s of
        Inl e \<Rightarrow> Some (Inl (Fault e, s))
      | Inr a \<Rightarrow>
          (let s1 = s\<lparr>sems := (sems s)(a := sems s a + 1)\<rparr> in
           if sems s1 a \<le> 0 then
             (case removeBlocked a s1 of
                None \<Rightarrow> None
              | Some (Inl e) \<Rightarrow> Some (Inl (Fault e, s1))
              | Some (Inr (signaledProc, s2)) \<Rightarrow>
                  if trueLineNumber \<noteq> LINENUMSEVEN then
                    (let s3 = (if signaledProc = None
                               then s2\<lparr>g_deviceStatus := (g_deviceStatus s2)
                                         (nat semaphoreIndex := recv_status (devregs s2 dev))\<rparr>
                               else s2)
                     in case signaledProc of
                          None \<Rightarrow> Some (Inl (Fault NullDeref, s3))
                        | Some sg \<Rightarrow>
                            (let s4 = s3\<lparr>procTable := (procTable s3)(sg := (procTable s3 sg)
                                           \<lparr>p_semAdd := 0\<rparr>)\<rparr>;
                                 s5 = s4\<lparr>g_softBlockCount := g_softBlockCount s4 - 1\<rparr>;
                                 s6 = s5\<lparr>devregs := (devregs s5)(dev := (devregs s5 dev)
                                           \<lparr>recv_command := ACK\<rparr>)\<rparr>;
                                 s7 = s6\<lparr>procTable := (procTable s6)(sg := (procTable s6 sg)
                                           \<lparr>p_s := (p_s (procTable s6 sg))
                                              \<lparr>a1 := recv_status (devregs s6 dev)\<rparr>\<rparr>)\<rparr>
                             in case insertProcQ (g_readyQueue s7) signaledProc (procTable s7) of
                                  Inl e \<Rightarrow> Some (Inl (Fault e, s7))
                                | Inr (tp, pt) \<Rightarrow>
                                    Some (Inr (s7\<lparr>g_readyQueue := tp, procTable := pt\<rparr>))))
                  else
                    (case signaledProc of
                       None \<Rightarrow> Some (Inr s2)
                     | Some sg \<Rightarrow>
                         (let s4 = s2\<lparr>procTable := (procTable s2)(sg := (procTable s2 sg)
                                        \<lparr>p_semAdd := 0\<rparr>)\<rparr>;
                              s5 = s4\<lparr>g_softBlockCount := g_softBlockCount s4 - 1\<rparr>;
                              s6 = (if terminalMode = RECEIVING then
                                      (let sa = s5\<lparr>procTable := (procTable s5)(sg :=
                                                  (procTable s5 sg)\<lparr>p_s := (p_s (procTable s5 sg))
                                                    \<lparr>a1 := recv_status (devregs s5 dev)\<rparr>\<rparr>)\<rparr>
                                       in sa\<lparr>devregs := (devregs sa)(dev := (devregs sa dev)
                                               \<lparr>recv_command := ACK\<rparr>)\<rparr>)
                                    else
                                      (let sa = s5\<lparr>procTable := (procTable s5)(sg :=
                                                  (procTable s5 sg)\<lparr>p_s := (p_s (procTable s5 sg))
                                                    \<lparr>a1 := transm_status (devregs s5 dev)\<rparr>\<rparr>)\<rparr>
                                       in sa\<lparr>devregs := (devregs sa)(dev := (devregs sa dev)
                                               \<lparr>transm_command := ACK\<rparr>)\<rparr>))
                          in case insertProcQ (g_readyQueue s6) signaledProc (procTable s6) of
                               Inl e \<Rightarrow> Some (Inl (Fault e, s6))
                             | Inr (tp, pt) \<Rightarrow>
                                 Some (Inr (s6\<lparr>g_readyQueue := tp, procTable := pt\<rparr>)))))
           else Some (Inr s1)))"

definition externalDeviceHandler :: "int \<Rightarrow> int \<Rightarrow> kstate \<Rightarrow> (outcome \<times> kstate) option" where
  "externalDeviceHandler semaphoreIndex trueLineNumber s =
     (case terminalCheck semaphoreIndex trueLineNumber (devregs s semaphoreIndex) of
        (semaphoreIndex', terminalMode) \<Rightarrow>
          (case signalDevice semaphoreIndex semaphoreIndex' terminalMode trueLineNumber s of
             None \<Rightarrow> None
           | Some (Inl stop) \<Rightarrow> Some stop
           | Some (Inr s1) \<Rightarrow> Some (resumeOrSchedule s1)))"



section \<open>Concrete states\<close>

text \<open>
  \<open>zeroed\<close> is the nucleus with its statics still zero; the array of device semaphores
  is placed at address \<open>0x9000\<close> and successive reads of the time of day give
  1000, 1001 and so on.
  \<open>bracketed\<close> is \<open>zeroed\<close> with the ASL of the specification's data model: the
  descriptor with key 0 (entry 21) followed by the descriptor with key \<open>0xFFFFFF\<close>
  (entry 20), and the other twenty descriptors on the free list. It is what \<open>initASL\<close>
  yields once the second sentinel is made the successor of the first.
\<close>

definition zero_state :: state_t where
  "zero_state = \<lparr>a1 = 0, a2 = 0, a3 = 0, a4 = 0, v1 = 0, v2 = 0, v3 = 0, v4 = 0, v5 = 0,
     v6 = 0, sl = 0, fp = 0, ip = 0, sp = 0, lr = 0, pc = 0, cpsr = 0, CP15_Control = 0,
     CP15_EntryHi = 0, CP15_Cause = 0, TOD_Hi = 0, TOD_Low = 0\<rparr>"

definition zero_pcb :: pcb_t where
  "zero_pcb = \<lparr>p_next = None, p_prev = None, p_prnt = None, p_child = None,
     p_nextSib = None, p_prevSib = None, p_s = zero_state, p_time = 0, p_semAdd = 0,
     stateArray = (\<lambda>i. \<lparr>oldState = 0, newState = 0\<rparr>)\<rparr>"

definition zero_semd :: semd_t where
  "zero_semd = \<lparr>s_next = None, s_semAdd = 0, s_procQ = None\<rparr>"

definition zero_devreg :: devreg_t where
  "zero_devreg = \<lparr>recv_status = 0, recv_command = 0, transm_status = 0, transm_command = 0\<rparr>"

definition zeroed :: kstate where
  "zeroed = \<lparr>procTable = (\<lambda>i. zero_pcb), pcbList_h = None, semdTable = (\<lambda>i. zero_semd),
     semd_h = None, semdFree_h = None, g_procCount = 0, g_softBlockCount = 0,
     g_startTOD = 0, g_endTOD = 0, g_accTime = 0, g_endOfInterval = 0,
     g_currentProc = None, g_readyQueue = None, sems = (\<lambda>a. 0), lotBase = 0x9000,
     g_deviceStatus = (\<lambda>i. 0), stmem = (\<lambda>a. zero_state), devregs = (\<lambda>i. zero_devreg),
     bitmaps = (\<lambda>a. 0), tod = (\<lambda>n. 1000 + of_nat n), todIdx = 0, timer = 0,
     cpu_status = 0\<rparr>"

definition bracketed :: kstate where
  "bracketed = zeroed\<lparr>
     semdTable := (\<lambda>i. zero_semd\<lparr>s_next := (if i = 0 \<or> 21 < i then None else Some (i - 1))\<rparr>)
       (21 := \<lparr>s_next = Some 20, s_semAdd = 0, s_procQ = None\<rparr>,
        20 := \<lparr>s_next = None, s_semAdd = 0xFFFFFF, s_procQ = None\<rparr>),
     semd_h := Some 21, semdFree_h := Some 19\<rparr>"

text \<open>\<open>stale_pool\<close>: the free pool holds one PCB (entry 0), last used by a process that
  had registered its three handler pairs and was killed while it was blocked on the
  semaphore at \<open>0x9000\<close>.\<close>

definition stale_pool :: kstate where
  "stale_pool = zeroed\<lparr>pcbList_h := Some 0,
     procTable := (\<lambda>i. zero_pcb)(0 := zero_pcb\<lparr>p_next := Some 0, p_prev := Some 0,
       p_semAdd := 0x9000,
       stateArray := (\<lambda>i. \<lparr>oldState = 0x8000, newState = 0x8100\<rparr>)\<rparr>)\<rparr>"

text \<open>\<open>overtaken_disk\<close>: the process in entry 0 runs; the semaphore of disk 0 (index 0,
  address \<open>0x9000\<close>) holds \<open>-1\<close> with no process blocked on it, and the disk's status
  register holds 1.\<close>

definition overtaken_disk :: kstate where
  "overtaken_disk = bracketed\<lparr>sems := (\<lambda>a. 0)(0x9000 := - 1), g_currentProc := Some 0,
      g_procCount := 1,
      devregs := (\<lambda>i. zero_devreg)(0 := zero_devreg\<lparr>recv_status := 1\<rparr>)\<rparr>"

text \<open>\<open>idle_wait\<close>: one process, blocked on a device; nothing is ready; the next
  pseudo-clock tick is due at time 50000 and the time of day is 1000.\<close>

definition idle_wait :: kstate where
  "idle_wait = zeroed\<lparr>g_procCount := 1, g_softBlockCount := 1, g_endOfInterval := 50000\<rparr>"

text \<open>\<open>sys1_request\<close>: the process in entry 0 runs in SYS mode and requests service 1
  with the address \<open>0x8000\<close> of the new process's state in \<open>a2\<close>; the free pool holds
  the PCB of entry 1.\<close>

definition sys1_request :: kstate where
  "sys1_request = zeroed\<lparr>g_currentProc := Some 0, g_procCount := 1, pcbList_h := Some 1,
     procTable := (\<lambda>i. zero_pcb)(1 := zero_pcb\<lparr>p_next := Some 1, p_prev := Some 1\<rparr>),
     stmem := (\<lambda>a. zero_state)
       (SYSOLDADD := zero_state\<lparr>a1 := 1, a2 := 0x8000, cpsr := 0x1F, pc := 0x8400\<rparr>,
        0x8000 := zero_state\<lparr>a1 := 5, pc := 0x8800, cpsr := 0x1F\<rparr>)\<rparr>"

text \<open>\<open>disk_done_first\<close>: the process in entry 0 runs, no I/O is awaited, every device
  semaphore and every entry of \<open>g_deviceStatus\<close> is 0, and disk 0 has completed an
  operation: its status register holds 1.\<close>

definition disk_done_first :: kstate where
  "disk_done_first = zeroed\<lparr>g_currentProc := Some 0, g_procCount := 1,
     devregs := (\<lambda>i. zero_devreg)(0 := zero_devreg\<lparr>recv_status := 1\<rparr>)\<rparr>"



section \<open>The ASL as a list of descriptors\<close>

text \<open>\<open>aslPath tbl p ds\<close>: following \<open>s_next\<close> from \<open>p\<close> visits exactly the descriptors
  \<open>ds\<close> and ends in NULL.
  \<open>aslWithout semAdd s ds\<close>: the ASL of \<open>s\<close> is the list \<open>ds\<close> of at least two
  descriptors, the last one (the closing sentinel) has a key not below \<open>semAdd\<close>, and no
  descriptor after the head has the key \<open>semAdd\<close>: no process is blocked on the
  semaphore \<open>semAdd\<close>.\<close>

fun aslPath :: "(nat \<Rightarrow> semd_t) \<Rightarrow> semd_PTR \<Rightarrow> nat list \<Rightarrow> bool" where
  "aslPath tbl p [] = (p = None)"
| "aslPath tbl p (x # xs) = (p = Some x \<and> aslPath tbl (s_next (tbl x)) xs)"

definition aslWithout :: "nat \<Rightarrow> kstate \<Rightarrow> nat list \<Rightarrow> bool" where
  "aslWithout semAdd s ds =
     (aslPath (semdTable s) (semd_h s) ds \<and> 2 \<le> length ds
      \<and> semAdd \<le> s_semAdd (semdTable s (last ds))
      \<and> (\<forall>n \<in> set (tl ds). s_semAdd (semdTable s n) \<noteq> semAdd))"

text \<open>\<open>pcbPath pt x ws y\<close>: following \<open>p_next\<close> from the PCB \<open>x\<close> visits exactly the
  PCBs \<open>ws\<close> and arrives at \<open>y\<close>.
  \<open>procQ pt tp ws\<close>: the tail pointer \<open>tp\<close> stands for the process queue \<open>ws\<close>, head
  first: the queue is empty and \<open>tp\<close> is NULL, or \<open>tp\<close> is the last PCB of \<open>ws\<close>, the
  PCBs of \<open>ws\<close> are distinct, and \<open>p_next\<close> leads from the head through \<open>ws\<close> and from
  the tail back to the head.\<close>

fun pcbPath :: "ptable \<Rightarrow> nat \<Rightarrow> nat list \<Rightarrow> nat \<Rightarrow> bool" where
  "pcbPath pt x [] y = (x = y)"
| "pcbPath pt x (w # ws) y =
     (x = w \<and> (case p_next (pt w) of None \<Rightarrow> False | Some z \<Rightarrow> pcbPath pt z ws y))"

definition procQ :: "ptable \<Rightarrow> pcb_PTR \<Rightarrow> nat list \<Rightarrow> bool" where
  "procQ pt tp ws =
     (case ws of [] \<Rightarrow> tp = None
      | h # r \<Rightarrow> tp = Some (last ws) \<and> distinct ws \<and> pcbPath pt h ws h)"



section \<open>Unfolding rules\<close>

lemmas const_defs = MAXPROC_def MAXSEMA4_def PCPREFETCH_def RI_def QUANTUM_def INTERVAL_def
  CLOCKINDEX_def LASTSEMINDEX_def ALLOFF_def INTSDISABLED_def INTSENABLED_def SYSMODE_def
  USERMODE_def INTOLDADD_def PGMTOLDADD_def TLBOLDADD_def SYSOLDADD_def TLBTRAP_def PGMTRAP_def
  SYSTRAP_def SUCCESS_def FAILURE_def DEVICEREADY_def ACK_def ISOLATEREADY_def DEVICEOFFSET_def
  TOTALDEVICES_def LINENUMOFFSET_def TERMINALINTMAP_def PRINTERINTMAP_def NETWORKINTMAP_def
  TAPEINTMAP_def DISKINTMAP_def CREATEPROCESS_def TERMINATEPROCESS_def VERHOGEN_def PASSEREN_def
  SPECTRAPVEC_def GETCPUTIME_def WAITCLOCK_def WAITIO_def LINENUMTWO_def LINENUMTHREE_def
  LINENUMFOUR_def LINENUMFIVE_def LINENUMSIX_def LINENUMSEVEN_def RECEIVING_def TRANSMITTING_def

lemmas fixture_defs = zero_state_def zero_pcb_def zero_semd_def zero_devreg_def zeroed_def
  bracketed_def

lemmas pcb_defs = emptyProcQ_def mkEmptyProcQ_def headProcQ_def insertProcQ_def removeProcQ_def
  outProcQ_def outProcQ_loop.simps emptyChild_def insertChild_def removeChild_def outChild_def
  allocPcb_def freePcb_def


lemmas platform_defs = getTODLO_def setTIMER_def setSTATUS_def lotAddr_def copyState_def
  loadState_def updateTime_def



section \<open>The ASL after initASL (claim C1)\<close>

lemma upt_semdTable:
  "[0..<MAXPROC + 2] =
     [0, 1, 2, 3, 4, 5, 6, 7, 8, 9, 10, 11, 12, 13, 14, 15, 16, 17, 18, 19, 20, 21]"
  unfolding MAXPROC_def by code_simp

text \<open>\<open>initASL\<close> takes the last two table entries for the sentinels, gives them the keys
  0 and \<open>0xFFFFFF\<close>, sets both successors to NULL and makes the first one the head: the
  second sentinel is not on the list.\<close>

lemma initASL_result:
  "\<exists>s1. initASL s = Inr s1 \<and> semd_h s1 = Some 21 \<and> s_next (semdTable s1 21) = None
     \<and> s_semAdd (semdTable s1 21) = 0 \<and> s_semAdd (semdTable s1 20) = 0xFFFFFF
     \<and> s_next (semdTable s1 20) = None"
  unfolding initASL_def upt_semdTable
  by (simp add: freeSemd_def allocateSemd_def Let_def)

text \<open>The state \<open>bracketed\<close> is the result of \<open>initASL\<close> on the zeroed statics with the
  second sentinel made the successor of the first.\<close>

lemma bracketed_from_initASL:
  "\<exists>s1. initASL zeroed = Inr s1
      \<and> bracketed = s1\<lparr>semdTable := (semdTable s1)(21 := (semdTable s1 21)\<lparr>s_next := Some 20\<rparr>)\<rparr>"
  unfolding initASL_def upt_semdTable
  apply (simp add: freeSemd_def allocateSemd_def Let_def fixture_defs)
  apply (rule ext)
  apply simp
  apply arith
  done

lemma findPrevSemd_no_successor:
  "semd_h s = Some c \<Longrightarrow> s_next (semdTable s c) = None \<Longrightarrow>
     findPrevSemd k s = Some (Inl NullDeref)"
  by (subst findPrevSemd_def, subst findPrevSemd_loop.simps) simp

text \<open>
  Claim C1 (fails on the code). After \<open>initASL\<close>, from any state, the head of the ASL is
  the sentinel with key 0 and its successor is NULL. For every key \<open>semAdd\<close>,
  \<open>findPrevSemd\<close> reads the key of that NULL successor in its first loop test, and so do
  \<open>insertBlocked\<close> and \<open>outBlocked\<close> (for every process pointer \<open>p\<close> and every PCB
  \<open>&procTable[q]\<close>), \<open>removeBlocked\<close> and \<open>headBlocked\<close>, which call it first.
\<close>

theorem initASL_successor_null:
  "\<exists>s1. initASL s = Inr s1
      \<and> (\<exists>top. semd_h s1 = Some top \<and> s_semAdd (semdTable s1 top) = 0
               \<and> s_next (semdTable s1 top) = None)
      \<and> findPrevSemd semAdd s1 = Some (Inl NullDeref)
      \<and> insertBlocked semAdd p s1 = Some (Inl NullDeref)
      \<and> removeBlocked semAdd s1 = Some (Inl NullDeref)
      \<and> outBlocked (Some q) s1 = Some (Inl NullDeref)
      \<and> headBlocked semAdd s1 = Some (Inl NullDeref)"
proof -
  obtain s1 where s1: "initASL s = Inr s1" "semd_h s1 = Some 21"
      "s_next (semdTable s1 21) = None" "s_semAdd (semdTable s1 21) = 0"
    using initASL_result [of s] by blast
  have f: "findPrevSemd k s1 = Some (Inl NullDeref)" for k
    using s1 by (simp add: findPrevSemd_no_successor)
  have "outBlocked (Some q) s1 = Some (Inl NullDeref)"
    by (simp add: outBlocked_def f)
  with s1 f show ?thesis
    by (simp add: insertBlocked_def removeBlocked_def headBlocked_def)
qed

theorem initASL_successor_null_witness:
  "\<exists>s1. initASL zeroed = Inr s1
      \<and> (\<exists>top. semd_h s1 = Some top \<and> s_semAdd (semdTable s1 top) = 0
               \<and> s_next (semdTable s1 top) = None)
      \<and> findPrevSemd 0x9000 s1 = Some (Inl NullDeref)
      \<and> insertBlocked 0x9000 (Some 0) s1 = Some (Inl NullDeref)
      \<and> removeBlocked 0x9000 s1 = Some (Inl NullDeref)
      \<and> outBlocked (Some 0) s1 = Some (Inl NullDeref)
      \<and> headBlocked 0x9000 s1 = Some (Inl NullDeref)"
  by (rule initASL_successor_null)

section \<open>What allocPcb clears (claim C5)\<close>

lemma removeProcQ_keeps:
  "removeProcQ tp pt = Inr (r, tp', pt') \<Longrightarrow>
     p_semAdd (pt' x) = p_semAdd (pt x) \<and> stateArray (pt' x) = stateArray (pt x)
     \<and> p_s (pt' x) = p_s (pt x)"
  by (auto simp: removeProcQ_def Let_def split: option.splits if_splits)

text \<open>
  Claim C5 (fails on the code). Whenever \<open>allocPcb\<close> returns a PCB, the PCB's \<open>p_semAdd\<close>
  and its three handler pairs are what they were when the PCB lay in the free pool:
  \<open>allocPcb\<close> clears neither.
\<close>

theorem allocPcb_keeps_semAdd_and_handlers:
  "allocPcb s = Inr (Some u, s') \<Longrightarrow>
     p_semAdd (procTable s' u) = p_semAdd (procTable s u)
     \<and> stateArray (procTable s' u) = stateArray (procTable s u)"
proof -
  assume a: "allocPcb s = Inr (Some u, s')"
  then obtain tp pt where r: "removeProcQ (pcbList_h s) (procTable s) = Inr (Some u, tp, pt)"
    and s': "procTable s' u = (pt u)\<lparr>p_next := None, p_prev := None, p_prnt := None,
       p_child := None, p_nextSib := None, p_prevSib := None, p_time := 0\<rparr>"
    by (auto simp: allocPcb_def split: if_splits sum.splits option.splits)
  from removeProcQ_keeps [OF r, of u] s' show ?thesis by simp
qed

lemma allocPcb_stale_pool: "\<exists>s'. allocPcb stale_pool = Inr (Some 0, s')"
  by (simp add: allocPcb_def removeProcQ_def stale_pool_def fixture_defs)

theorem allocPcb_keeps_semAdd_and_handlers_witness:
  "\<exists>s'. allocPcb stale_pool = Inr (Some 0, s')
      \<and> p_semAdd (procTable s' 0) = 0x9000
      \<and> stateArray (procTable s' 0) 1 = \<lparr>oldState = 0x8000, newState = 0x8100\<rparr>"
proof -
  obtain s' where a: "allocPcb stale_pool = Inr (Some 0, s')"
    using allocPcb_stale_pool by blast
  from allocPcb_keeps_semAdd_and_handlers [OF a] show ?thesis
    using a by (simp add: stale_pool_def fixture_defs)
qed

section \<open>Searching a bracketed ASL\<close>

text \<open>On a list that ends in a descriptor whose key is not below \<open>semAdd\<close>, the loop of
  \<open>findPrevSemd\<close> ends at a descriptor with a successor, and the successor's key is not
  below \<open>semAdd\<close>.\<close>

lemma findPrevSemd_loop_path:
  "aslPath tbl (Some c) (c # ns) \<Longrightarrow> ns \<noteq> [] \<Longrightarrow> semAdd \<le> s_semAdd (tbl (last ns)) \<Longrightarrow>
     \<exists>pv n. findPrevSemd_loop semAdd tbl (Some c) = Some (Inr (Some pv))
        \<and> s_next (tbl pv) = Some n \<and> n \<in> set ns \<and> semAdd \<le> s_semAdd (tbl n)"
proof (induction ns arbitrary: c)
  case Nil
  then show ?case by simp
next
  case (Cons n ns)
  from Cons.prems have nx: "s_next (tbl c) = Some n" and p: "aslPath tbl (Some n) (n # ns)"
    by simp_all
  show ?case
  proof (cases "s_semAdd (tbl n) < semAdd")
    case True
    with Cons.prems have ne: "ns \<noteq> []" by auto
    with Cons.prems have "semAdd \<le> s_semAdd (tbl (last ns))" by simp
    from Cons.IH [OF p ne this] obtain pv m where
      "findPrevSemd_loop semAdd tbl (Some n) = Some (Inr (Some pv))"
      "s_next (tbl pv) = Some m" "m \<in> set ns" "semAdd \<le> s_semAdd (tbl m)" by blast
    with True nx show ?thesis
      by (subst findPrevSemd_loop.simps) auto
  next
    case False
    with nx show ?thesis
      by (subst findPrevSemd_loop.simps) auto
  qed
qed

lemma removeBlocked_aslWithout:
  assumes "aslWithout semAdd s ds"
  shows "removeBlocked semAdd s = Some (Inr (None, s))"
proof -
  from assms obtain c ns where ds: "ds = c # ns" and ne: "ns \<noteq> []"
    by (cases ds; cases "tl ds") (auto simp: aslWithout_def)
  from assms ds have h: "semd_h s = Some c"
    and p: "aslPath (semdTable s) (Some c) (c # ns)"
    and l: "semAdd \<le> s_semAdd (semdTable s (last ns))"
    and no: "\<forall>n \<in> set ns. s_semAdd (semdTable s n) \<noteq> semAdd"
    using ne by (auto simp: aslWithout_def)
  from findPrevSemd_loop_path [OF p ne l] obtain pv n where
    "findPrevSemd_loop semAdd (semdTable s) (Some c) = Some (Inr (Some pv))"
    "s_next (semdTable s pv) = Some n" "n \<in> set ns" by blast
  with no h show ?thesis
    by (simp add: removeBlocked_def findPrevSemd_def)
qed

lemma aslWithout_frame:
  "aslWithout semAdd s ds \<Longrightarrow> semdTable s' = semdTable s \<Longrightarrow> semd_h s' = semd_h s \<Longrightarrow>
     aslWithout semAdd s' ds"
  by (simp add: aslWithout_def)

lemma aslWithout_bracketed:
  "a \<noteq> 0xFFFFFF \<Longrightarrow> a \<le> 0xFFFFFF \<Longrightarrow> aslWithout a bracketed [21, 20]"
  by (simp add: aslWithout_def fixture_defs)

section \<open>V without a waiter (claim C10)\<close>

text \<open>On an ASL closed by a sentinel whose key is not below \<open>semAdd\<close>, and without a
  descriptor for \<open>semAdd\<close>, \<open>verhogen\<close> reaches its \<open>PANIC\<close> when the value after the
  increment is still at most 0.\<close>

lemma verhogen_panics_on_closed_list:
  assumes "semAdd \<noteq> 0" and "sems s semAdd + 1 \<le> 0" and "aslWithout semAdd s ds"
  shows "verhogen semAdd s = Some (PANIC, s\<lparr>sems := (sems s)(semAdd := sems s semAdd + 1)\<rparr>)"
proof -
  let ?s1 = "s\<lparr>sems := (sems s)(semAdd := sems s semAdd + 1)\<rparr>"
  from assms(3) have "aslWithout semAdd ?s1 ds" by (rule aslWithout_frame) simp_all
  then have "removeBlocked semAdd ?s1 = Some (Inr (None, ?s1))" by (rule removeBlocked_aslWithout)
  with assms(1,2) show ?thesis by (simp add: verhogen_def Let_def)
qed

text \<open>
  Claim C10 (fails on the code). Take any state whose ASL is the one \<open>initASL\<close> builds.
  When V (service 3) is requested on a semaphore \<open>semAdd\<close> whose value after the
  increment is still at most 0 (so that no process can be blocked on it, the ASL
  holding no semaphore at all), \<open>verhogen\<close> increments the semaphore and calls
  \<open>removeBlocked\<close>, which reads the key of the NULL successor of the head sentinel:
  the handler stops in that dereference and does not reach its \<open>PANIC\<close>.
\<close>

theorem verhogen_faults_before_panic:
  assumes "initASL s0 = Inr s1" and "semd_h s = semd_h s1" and "semdTable s = semdTable s1"
    and "semAdd \<noteq> 0" and "sems s semAdd + 1 \<le> 0"
  shows "verhogen semAdd s =
           Some (Fault NullDeref, s\<lparr>sems := (sems s)(semAdd := sems s semAdd + 1)\<rparr>)"
proof -
  let ?s1 = "s\<lparr>sems := (sems s)(semAdd := sems s semAdd + 1)\<rparr>"
  from initASL_result [of s0] assms(1)
  have "semd_h s1 = Some 21" "s_next (semdTable s1 21) = None" by auto
  with assms(2,3) have "semd_h ?s1 = Some 21" "s_next (semdTable ?s1 21) = None" by simp_all
  then have "removeBlocked semAdd ?s1 = Some (Inl NullDeref)"
    by (simp add: removeBlocked_def findPrevSemd_no_successor)
  with assms(4,5) show ?thesis by (simp add: verhogen_def Let_def)
qed

theorem verhogen_faults_before_panic_witness:
  "\<exists>s1. initASL zeroed = Inr s1
      \<and> verhogen 0x9C40 (s1\<lparr>sems := (\<lambda>a. 0)(0x9C40 := - 2), g_currentProc := Some 0\<rparr>)
          = Some (Fault NullDeref, s1\<lparr>sems := (\<lambda>a. 0)(0x9C40 := - 1), g_currentProc := Some 0\<rparr>)"
proof -
  obtain s1 where i: "initASL zeroed = Inr s1"
    using initASL_result [of zeroed] by blast
  from verhogen_faults_before_panic [OF i, of "s1\<lparr>sems := (\<lambda>a. 0)(0x9C40 := - 2),
      g_currentProc := Some 0\<rparr>" "0x9C40"] i
  show ?thesis by simp
qed

section \<open>A device interrupt that finds no waiter (claim C2)\<close>

text \<open>
  Claim C2 (fails on the code). On an interrupt of a line other than 7, when the V leaves
  the device semaphore at most 0 and no process is blocked on it, the handler stores the
  device's status word in \<open>g_deviceStatus[semaphoreIndex]\<close> and then writes
  \<open>signaledProc->p_semAdd\<close> through the NULL \<open>signaledProc\<close>: it stops there, before the
  ACK, with the semaphore incremented and the status stored.
\<close>

theorem externalDeviceHandler_null_waiter:
  assumes "trueLineNumber \<noteq> LINENUMSEVEN" and "lotAddr semaphoreIndex s = Inr a"
    and "sems s a + 1 \<le> 0" and "aslWithout a s ds"
  shows "externalDeviceHandler semaphoreIndex trueLineNumber s =
           Some (Fault NullDeref,
                 s\<lparr>sems := (sems s)(a := sems s a + 1),
                   g_deviceStatus := (g_deviceStatus s)
                     (nat semaphoreIndex := recv_status (devregs s semaphoreIndex))\<rparr>)"
proof -
  let ?s1 = "s\<lparr>sems := (sems s)(a := sems s a + 1)\<rparr>"
  from assms(4) have "aslWithout a ?s1 ds" by (rule aslWithout_frame) simp_all
  then have "removeBlocked a ?s1 = Some (Inr (None, ?s1))" by (rule removeBlocked_aslWithout)
  with assms(1,2,3) show ?thesis
    by (simp add: externalDeviceHandler_def terminalCheck_def signalDevice_def Let_def)
qed

theorem externalDeviceHandler_null_waiter_witness:
  "externalDeviceHandler 0 LINENUMTHREE overtaken_disk =
     Some (Fault NullDeref,
           overtaken_disk\<lparr>sems := (\<lambda>a. 0), g_deviceStatus := (\<lambda>i. 0)(0 := 1)\<rparr>)"
proof -
  have "aslWithout 0x9000 bracketed [21, 20]"
    by (rule aslWithout_bracketed) simp_all
  then have w: "aslWithout 0x9000 overtaken_disk [21, 20]"
    by (rule aslWithout_frame) (simp_all add: overtaken_disk_def)
  have l: "lotAddr 0 overtaken_disk = Inr 0x9000"
    by (simp add: lotAddr_def overtaken_disk_def fixture_defs const_defs)
  have n: "LINENUMTHREE \<noteq> LINENUMSEVEN" by (simp add: const_defs)
  from externalDeviceHandler_null_waiter [OF n l _ w] show ?thesis
    by (simp add: overtaken_disk_def fixture_defs fun_eq_iff)
qed

section \<open>The wait state of the scheduler (claim C8)\<close>

text \<open>
  Claim C8 as stated fails at \<open>idle_wait\<close>: the tick was due at 50000; the scheduler
  moves it to 101000 and sets the timer to 99999.
\<close>

theorem scheduler_wait_moves_interval:
  "fst (scheduler idle_wait) = WAIT \<and> g_endOfInterval idle_wait = 50000
     \<and> g_endOfInterval (snd (scheduler idle_wait)) = 101000
     \<and> timer (snd (scheduler idle_wait)) = 99999"
  by (simp add: scheduler_def platform_defs const_defs Let_def idle_wait_def fixture_defs
      emptyProcQ_def)

text \<open>
  Claim C8, amended. In the wait-state path (ready queue empty, process count and
  soft-block count positive) the scheduler sets the status to SYS mode with both
  interrupt-disable bits clear, sets \<open>g_endOfInterval\<close> to the time of day plus
  \<open>INTERVAL\<close>, programs the timer with the new \<open>g_endOfInterval\<close> minus the time of day
  read next, and waits. The previous value of \<open>g_endOfInterval\<close> plays no part.
\<close>

theorem scheduler_wait_restarts_interval:
  assumes "emptyProcQ (g_readyQueue s)" and "0 < g_procCount s" and "0 < g_softBlockCount s"
  shows "scheduler s =
           (WAIT, s\<lparr>cpu_status := SYSMODE, todIdx := todIdx s + 2,
                    g_endOfInterval := tod s (todIdx s) + INTERVAL,
                    timer := tod s (todIdx s) + INTERVAL - tod s (todIdx s + 1)\<rparr>)
         \<and> cpu_status (snd (scheduler s)) AND INTSDISABLED = 0"
  using assms by (simp add: scheduler_def platform_defs const_defs Let_def)

theorem scheduler_wait_restarts_interval_witness:
  "scheduler idle_wait =
     (WAIT, idle_wait\<lparr>cpu_status := 0x1F, todIdx := 2, g_endOfInterval := 101000,
                      timer := 99999\<rparr>)"
proof -
  have "emptyProcQ (g_readyQueue idle_wait)" "0 < g_procCount idle_wait"
      "0 < g_softBlockCount idle_wait"
    by (simp_all add: idle_wait_def fixture_defs emptyProcQ_def)
  from scheduler_wait_restarts_interval [OF this] show ?thesis
    by (simp add: idle_wait_def fixture_defs const_defs)
qed

section \<open>Transmit or receive (claim C9)\<close>

text \<open>
  Claim C9 (fails on the code). On line 7 the handler takes the interrupt for a transmit
  interrupt, and adds 8 to the semaphore index, exactly when the low four bits of the
  receive-status register are the device-ready code, whatever bits 4 to 7 are.
\<close>

theorem terminalCheck_reads_four_bits:
  "terminalCheck i LINENUMSEVEN d = (i + TOTALDEVICES, TRANSMITTING)
     \<longleftrightarrow> recv_status d AND 0x0F = DEVICEREADY"
  by (simp add: terminalCheck_def const_defs)

theorem terminalCheck_reads_four_bits_witness:
  "terminalCheck 32 LINENUMSEVEN (zero_devreg\<lparr>recv_status := 0x11\<rparr>) = (40, TRANSMITTING)
     \<and> recv_status (zero_devreg\<lparr>recv_status := 0x11\<rparr>) AND 0xFF \<noteq> DEVICEREADY"
  using terminalCheck_reads_four_bits [of 32 "zero_devreg\<lparr>recv_status := 0x11\<rparr>"]
  by (simp add: const_defs)

section \<open>The status of CreateProcess (claim C4)\<close>

lemma allocPcb_frame:
  "allocPcb s = Inr (r, s1) \<Longrightarrow>
     p_s (procTable s1 x) = p_s (procTable s x) \<and> g_currentProc s1 = g_currentProc s
     \<and> stmem s1 = stmem s
     \<and> (r = None \<or> r = headProcQ (pcbList_h s) (procTable s))"
  by (auto simp: allocPcb_def removeProcQ_def headProcQ_def Let_def
      split: if_splits sum.splits option.splits)

lemma insertChild_p_s:
  "insertChild a b pt = Inr pt' \<Longrightarrow> p_s (pt' x) = p_s (pt x)"
  by (auto simp: insertChild_def emptyChild_def Let_def split: if_splits sum.splits option.splits)

lemma insertProcQ_p_s:
  "insertProcQ tp p pt = Inr (tp', pt') \<Longrightarrow> p_s (pt' x) = p_s (pt x)"
  by (auto simp: insertProcQ_def Let_def split: if_splits sum.splits option.splits)

lemma loadState_LDST:
  "loadState s = (LDST st, s') \<Longrightarrow> g_currentProc s = Some c \<Longrightarrow>
     st = p_s (procTable s c) \<and> s' = s"
  by (auto simp: loadState_def)

text \<open>\<open>createProcess\<close> resumes the caller with the registers it had on entry, and leaves
  the status in the \<open>a1\<close> field of the state its argument points to.\<close>

lemma createProcess_resumes_unchanged:
  assumes cur: "g_currentProc s = Some c"
    and nh: "headProcQ (pcbList_h s) (procTable s) \<noteq> Some c"
    and res: "createProcess parentState s = (LDST st, s')"
  shows "st = p_s (procTable s c)
     \<and> (a1 (stmem s' parentState) = SUCCESS \<or> a1 (stmem s' parentState) = FAILURE)"
proof -
  from res obtain newPcb s1 where al: "allocPcb s = Inr (newPcb, s1)" and p0: "parentState \<noteq> 0"
    by (auto simp: createProcess_def split: sum.splits if_splits)
  note fr = allocPcb_frame [OF al]
  from fr [of c] cur have cur1: "g_currentProc s1 = Some c" by simp
  show ?thesis
  proof (cases newPcb)
    case None
    with res al p0 have "loadState (s1\<lparr>stmem := (stmem s1)(parentState :=
           (stmem s1 parentState)\<lparr>a1 := FAILURE\<rparr>)\<rparr>) = (LDST st, s')"
      by (simp add: createProcess_def)
    from loadState_LDST [OF this] cur1 fr [of c] show ?thesis by simp
  next
    case (Some np)
    with fr [of c] nh have ne: "np \<noteq> c" by auto
    from res al p0 Some cur1 ne fr [of c] show ?thesis
      by (auto simp: createProcess_def Let_def loadState_def split: sum.splits
          dest!: insertProcQ_p_s [where x = c] insertChild_p_s [where x = c])
  qed
qed

text \<open>
  Claim C4 (fails on the code). Let a process \<open>c\<close> in SYS mode request service 1 (its
  \<open>a1\<close> holds 1), its PCB not being the one at the head of the free pool. Whenever the
  handler resumes the caller, the caller's \<open>a1\<close> still holds the service number 1,
  whether or not a PCB was allocated; the status 0 or -1 has been written to the \<open>a1\<close>
  field of the state that the caller's \<open>a2\<close> points to.
\<close>

theorem createProcess_status_not_in_a1:
  assumes cur: "g_currentProc s = Some c"
    and num: "a1 (stmem s SYSOLDADD) = 1"
    and mode: "cpsr (stmem s SYSOLDADD) AND SYSMODE = SYSMODE"
    and nh: "headProcQ (pcbList_h s) (procTable s) \<noteq> Some c"
    and res: "SYSCallHandler s = Some (LDST st, s')"
  shows "a1 st = 1
     \<and> (a1 (stmem s' (unat (a2 (stmem s SYSOLDADD)))) = SUCCESS
        \<or> a1 (stmem s' (unat (a2 (stmem s SYSOLDADD)))) = FAILURE)"
proof -
  let ?s1 = "s\<lparr>procTable := (procTable s)(c := (procTable s c)
               \<lparr>p_s := copyState (stmem s SYSOLDADD) (p_s (procTable s c))\<rparr>)\<rparr>"
  from cur num mode res
  have cp: "createProcess (unat (a2 (stmem s SYSOLDADD))) ?s1 = (LDST st, s')"
    by (simp add: SYSCallHandler_def Let_def copyState_def const_defs)
  have "g_currentProc ?s1 = Some c" using cur by simp
  moreover have "headProcQ (pcbList_h ?s1) (procTable ?s1) \<noteq> Some c"
    using nh by (auto simp: headProcQ_def split: option.splits)
  ultimately have "st = p_s (procTable ?s1 c)
     \<and> (a1 (stmem s' (unat (a2 (stmem s SYSOLDADD)))) = SUCCESS
        \<or> a1 (stmem s' (unat (a2 (stmem s SYSOLDADD)))) = FAILURE)"
    using cp by (rule createProcess_resumes_unchanged)
  with num show ?thesis by (simp add: copyState_def)
qed

lemma SYSCallHandler_sys1_request:
  "\<exists>st s'. SYSCallHandler sys1_request = Some (LDST st, s') \<and> g_procCount s' = 2
      \<and> g_readyQueue s' = Some 1"
  by (simp add: SYSCallHandler_def createProcess_def sys1_request_def fixture_defs const_defs
      pcb_defs platform_defs Let_def)

theorem createProcess_status_not_in_a1_witness:
  "\<exists>st s'. SYSCallHandler sys1_request = Some (LDST st, s') \<and> g_procCount s' = 2
      \<and> a1 st = 1 \<and> a1 (stmem s' 0x8000) = 0"
proof -
  obtain st s' where r: "SYSCallHandler sys1_request = Some (LDST st, s')" "g_procCount s' = 2"
    using SYSCallHandler_sys1_request by blast
  have "a1 st = 1"
    using createProcess_status_not_in_a1 [OF _ _ _ _ r(1), of 0]
    by (simp add: sys1_request_def fixture_defs const_defs headProcQ_def)
  moreover have "a1 (stmem s' 0x8000) = 0"
    using r(1) by (simp add: SYSCallHandler_def createProcess_def sys1_request_def fixture_defs
      const_defs pcb_defs platform_defs Let_def, auto)
  ultimately show ?thesis using r by blast
qed

section \<open>An interrupt before its WaitIO (claim C7)\<close>

text \<open>
  Claim C7 (fails on the code). Let a device of a line other than 7 interrupt while its
  semaphore is 0 and a process \<open>c\<close> runs. The handler increments the semaphore and resumes
  \<open>c\<close>; it neither stores the device's status word in \<open>g_deviceStatus\<close> nor writes to the
  device. The WaitIO that follows does not block and leaves the soft-block count as it
  was, but the \<open>a1\<close> it returns is the entry of \<open>g_deviceStatus\<close> from before the
  interrupt, not the status word of the device.
\<close>

theorem waitIO_after_interrupt_returns_old_entry:
  assumes cur: "g_currentProc s = Some c"
    and la: "lotAddr (getSemaphoreIndex line dev) s = Inr a"
    and ln: "line \<noteq> LINENUMSEVEN"
    and z: "sems s a = 0"
  shows "\<exists>st1 s1 st2 s2.
           externalDeviceHandler (getSemaphoreIndex line dev) line s = Some (LDST st1, s1)
         \<and> g_deviceStatus s1 = g_deviceStatus s \<and> devregs s1 = devregs s
         \<and> waitIO line dev w s1 = Some (LDST st2, s2)
         \<and> a1 st2 = g_deviceStatus s (nat (getSemaphoreIndex line dev))
         \<and> g_softBlockCount s2 = g_softBlockCount s \<and> g_currentProc s2 = Some c"
  using assms
  by (simp add: externalDeviceHandler_def terminalCheck_def signalDevice_def resumeOrSchedule_def
      waitIO_def platform_defs Let_def split: if_splits)

theorem waitIO_after_interrupt_returns_old_entry_witness:
  "\<exists>st1 s1 st2 s2.
     externalDeviceHandler 0 LINENUMTHREE disk_done_first = Some (LDST st1, s1)
   \<and> waitIO LINENUMTHREE 0 0 s1 = Some (LDST st2, s2)
   \<and> a1 st2 = 0 \<and> recv_status (devregs s1 0) = 1 \<and> recv_command (devregs s1 0) = 0
   \<and> g_softBlockCount s2 = 0"
proof -
  have i: "getSemaphoreIndex LINENUMTHREE 0 = 0"
    by (simp add: getSemaphoreIndex_def const_defs)
  have c: "g_currentProc disk_done_first = Some 0"
    by (simp add: disk_done_first_def)
  have l: "lotAddr (getSemaphoreIndex LINENUMTHREE 0) disk_done_first = Inr 0x9000"
    unfolding i by (simp add: lotAddr_def disk_done_first_def fixture_defs const_defs)
  have n: "LINENUMTHREE \<noteq> LINENUMSEVEN" by (simp add: const_defs)
  have z: "sems disk_done_first 0x9000 = 0"
    by (simp add: disk_done_first_def fixture_defs)
  from waitIO_after_interrupt_returns_old_entry [OF c l n z, of 0] obtain st1 s1 st2 s2 where
    r: "externalDeviceHandler 0 LINENUMTHREE disk_done_first = Some (LDST st1, s1)"
       "g_deviceStatus s1 = g_deviceStatus disk_done_first"
       "devregs s1 = devregs disk_done_first"
       "waitIO LINENUMTHREE 0 0 s1 = Some (LDST st2, s2)"
       "a1 st2 = g_deviceStatus disk_done_first 0"
       "g_softBlockCount s2 = g_softBlockCount disk_done_first"
    unfolding i by auto
  have "a1 st2 = 0" "recv_status (devregs s1 0) = 1" "recv_command (devregs s1 0) = 0"
      "g_softBlockCount s2 = 0"
    using r(2,3,5,6) by (simp_all add: disk_done_first_def fixture_defs)
  with r(1,4) show ?thesis by blast
qed

section \<open>Process queues as lists\<close>



lemma procQ_Nil [simp]: "procQ pt tp [] = (tp = None)"
  by (simp add: procQ_def)






section \<open>Removing the head of a semaphore's queue\<close>










section \<open>The interval timer (claim C3)\<close>






section \<open>Device semaphores and termination (claim C6)\<close>











end
